theory Spec2Isabelle
  imports Main
begin

section \<open>Data model\<close>

text \<open>
  The three mapped classes of \<^verbatim>\<open>main.py\<close> (lines 63-95), one record per table row.
  Every column is annotated \<^verbatim>\<open>Mapped[int]\<close> or \<^verbatim>\<open>Mapped[str]\<close>, never
  \<^verbatim>\<open>Mapped[Optional[...]]\<close>, so no field is nullable and the fields are plain values.
  Field names carry the table's initial because record fields share one name space.
\<close>

record user =
  u_id :: int
  u_email :: string
  u_password :: string
  u_name :: string

record blog_post =
  p_id :: int
  p_author_id :: int
  p_title :: string
  p_subtitle :: string
  p_date :: string
  p_body :: string
  p_img_url :: string

record comment =
  c_id :: int
  c_author_id :: int
  c_post_id :: int
  c_text :: string

section \<open>Requests, responses and the application state\<close>

datatype http_method = GET | POST

text \<open>
  \<^verbatim>\<open>request.method\<close> and \<^verbatim>\<open>request.form\<close>. Reading a key the form does not
  carry raises the framework's bad-request error (HTTP 400).
\<close>

record request =
  r_method :: http_method
  r_form :: "string \<rightharpoonup> string"

text \<open>
  \<^verbatim>\<open>forms.py\<close> is not among the sources. A form object a handler constructs is
  therefore an input of the handler: what its \<^verbatim>\<open>validate()\<close> answers on this request
  and the \<^verbatim>\<open>.data\<close> of its fields.
\<close>

record wtform =
  f_validate :: bool
  f_data :: "string \<Rightarrow> string"

datatype error = BadRequest | Forbidden | NotFound | InternalServerError

fun status_code :: "error \<Rightarrow> nat" where
  "status_code BadRequest = 400"
| "status_code Forbidden = 403"
| "status_code NotFound = 404"
| "status_code InternalServerError = 500"

text \<open>
  What a handler returns: \<^verbatim>\<open>redirect(url_for(endpoint, post_id=...))\<close> or
  \<^verbatim>\<open>render_template(name, form=...)\<close>. A response is an error (an
  \<^verbatim>\<open>abort\<close> or an exception nobody catches) or a page.
\<close>

datatype page = Redirect string "int option" | Render string "wtform option"

type_synonym response = "error + page"

text \<open>The steps of the contact handler's conversation with the mail relay.\<close>

datatype smtp_action =
    Connect string nat
  | Starttls
  | Smtp_login string string
  | Sendmail string string string

text \<open>
  The state a request reads and writes: the three tables, the session's user id
  (set by \<^verbatim>\<open>login_user\<close>), the flashed messages, and the log of what was asked of the
  mail relay.
\<close>

record state =
  users :: "user list"
  blog_posts :: "blog_post list"
  comments :: "comment list"
  session_user_id :: "int option"
  flashes :: "string list"
  smtp_log :: "smtp_action list"

text \<open>
  What the process takes from outside: the two environment variables of lines 29-30,
  today's date as \<^verbatim>\<open>strftime("%B %d, %Y")\<close> prints it, the two password functions of
  \<^verbatim>\<open>werkzeug.security\<close> (with the salt drawn at the call), and whether the relay
  accepts a step.
\<close>

record env =
  my_email :: string
  my_pass :: string
  today :: string
  generate_password_hash :: "string \<Rightarrow> string"
  check_password_hash :: "string \<Rightarrow> string \<Rightarrow> bool"
  relay_accepts :: "smtp_action \<Rightarrow> bool"

section \<open>The store\<close>

text \<open>\<^verbatim>\<open>db.session.get(Model, ident)\<close>: the row with that primary key, if there is one.\<close>

definition session_get :: "('a \<Rightarrow> int) \<Rightarrow> 'a list \<Rightarrow> int \<Rightarrow> 'a option" where
  "session_get pk rows ident = find (\<lambda>r. pk r = ident) rows"

text \<open>
  The store (by default the file-backed SQLite of line 47) binds a Python \<^verbatim>\<open>int\<close> as a
  signed 64-bit integer and raises \<^verbatim>\<open>OverflowError\<close> for one that does not fit.
\<close>

definition int64 :: "int \<Rightarrow> bool" where
  "int64 i = (- (2 ^ 63) \<le> i \<and> i < 2 ^ 63)"

text \<open>
  \<^verbatim>\<open>db.get_or_404(Model, ident)\<close> with an \<^verbatim>\<open>int\<close> identity, as the routes with
  \<^verbatim>\<open><int:post_id>\<close> call it: the row with that primary key, or abort 404; an identity
  the store cannot bind raises, and the handlers catch nothing.
\<close>

definition get_or_404 :: "('a \<Rightarrow> int) \<Rightarrow> 'a list \<Rightarrow> int \<Rightarrow> error + 'a" where
  "get_or_404 pk rows ident =
     (if int64 ident
      then (case session_get pk rows ident of None \<Rightarrow> Inl NotFound | Some r \<Rightarrow> Inr r)
      else Inl InternalServerError)"

text \<open>
  \<^verbatim>\<open>db.get_or_404(Model, ident)\<close> with the identity as a string, as the user loader
  calls it: the string is bound as text and compared with the integer column by its
  number, so no integer range applies. The identity is given here as that number.
\<close>

definition get_or_404_text :: "('a \<Rightarrow> int) \<Rightarrow> 'a list \<Rightarrow> int \<Rightarrow> error + 'a" where
  "get_or_404_text pk rows ident =
     (case session_get pk rows ident of None \<Rightarrow> Inl NotFound | Some r \<Rightarrow> Inr r)"

text \<open>The integer primary key the store gives a new row: one more than the largest.\<close>

definition fresh_id :: "int list \<Rightarrow> int" where
  "fresh_id ids = fold max ids 0 + 1"

text \<open>
  \<^verbatim>\<open>db.session.add(new_user); db.session.commit()\<close>. The handler has already looked
  for the email, so the unique column (line 66) cannot refuse the row.
\<close>

definition add_user :: "string \<Rightarrow> string \<Rightarrow> string \<Rightarrow> user list \<Rightarrow> user \<times> user list" where
  "add_user nm em pw us =
     (let u = \<lparr>u_id = fresh_id (map u_id us), u_email = em, u_password = pw, u_name = nm\<rparr>
      in (u, us @ [u]))"

text \<open>
  \<^verbatim>\<open>db.session.add(new_post); db.session.commit()\<close>. \<^verbatim>\<open>title\<close> is declared
  \<^verbatim>\<open>unique=True\<close> (line 79): the commit of a second row with a stored title raises an
  integrity error, and nothing is written.
\<close>

definition add_post ::
  "int \<Rightarrow> string \<Rightarrow> string \<Rightarrow> string \<Rightarrow> string \<Rightarrow> string \<Rightarrow> blog_post list \<Rightarrow> blog_post list option" where
  "add_post author ttl sub dt bdy img ps =
     (if list_ex (\<lambda>p. p_title p = ttl) ps then None
      else Some (ps @ [\<lparr>p_id = fresh_id (map p_id ps), p_author_id = author, p_title = ttl,
                        p_subtitle = sub, p_date = dt, p_body = bdy, p_img_url = img\<rparr>]))"

text \<open>
  The commit of an edited post (lines 226-231): the assigned attributes are written to the
  row with that id; a title that another row holds violates the unique column.
\<close>

definition update_post ::
  "int \<Rightarrow> int \<Rightarrow> string \<Rightarrow> string \<Rightarrow> string \<Rightarrow> string \<Rightarrow> blog_post list \<Rightarrow> blog_post list option" where
  "update_post ident author ttl sub bdy img ps =
     (if list_ex (\<lambda>p. p_id p \<noteq> ident \<and> p_title p = ttl) ps then None
      else Some (map (\<lambda>p. if p_id p = ident
                           then p\<lparr>p_title := ttl, p_subtitle := sub, p_img_url := img,
                                  p_author_id := author, p_body := bdy\<rparr>
                           else p) ps))"

text \<open>
  \<^verbatim>\<open>db.session.delete(post_to_delete); db.session.commit()\<close>. The relationship
  \<^verbatim>\<open>comments\<close> (line 84) declares no cascade, so the session deletes no comment: it
  detaches the post's comments by writing NULL to their \<^verbatim>\<open>post_id\<close>, which that
  column (line 93, not nullable) refuses with an integrity error. A post without comments
  is deleted.
\<close>

definition delete_row :: "int \<Rightarrow> blog_post list \<Rightarrow> comment list \<Rightarrow> blog_post list option" where
  "delete_row ident ps cs =
     (if list_ex (\<lambda>c. c_post_id c = ident) cs then None
      else Some (filter (\<lambda>p. p_id p \<noteq> ident) ps))"

section \<open>Session and access gate\<close>

text \<open>
  Lines 37-39: the user loader. The login extension hands it the user id it stored in the
  session, a string.
\<close>

definition load_user :: "state \<Rightarrow> int \<Rightarrow> error + user" where
  "load_user st uid = get_or_404_text u_id (users st) uid"

datatype principal = AnonymousUser | LoggedIn user

fun is_authenticated :: "principal \<Rightarrow> bool" where
  "is_authenticated AnonymousUser = False"
| "is_authenticated (LoggedIn u) = True"

text \<open>
  \<^verbatim>\<open>current_user\<close>: with no user id in the session the anonymous user; otherwise what
  the user loader returns, and its abort ends the request.
\<close>

definition current_user :: "state \<Rightarrow> error + principal" where
  "current_user st =
     (case session_user_id st of
        None \<Rightarrow> Inr AnonymousUser
      | Some uid \<Rightarrow> (case load_user st uid of Inl e \<Rightarrow> Inl e | Inr u \<Rightarrow> Inr (LoggedIn u)))"

definition login_user :: "user \<Rightarrow> state \<Rightarrow> state" where
  "login_user u st = st\<lparr>session_user_id := Some (u_id u)\<rparr>"

definition flash :: "string \<Rightarrow> state \<Rightarrow> state" where
  "flash m st = st\<lparr>flashes := flashes st @ [m]\<rparr>"

text \<open>
  \<^verbatim>\<open>render_template(name, form=...)\<close>. The login extension adds \<^verbatim>\<open>current_user\<close> to
  the context of every template, which resolves the session; the loader's abort ends the
  request here too.
\<close>

definition render_template :: "string \<Rightarrow> wtform option \<Rightarrow> state \<Rightarrow> response \<times> state" where
  "render_template name form st =
     (case current_user st of
        Inl e \<Rightarrow> (Inl e, st)
      | Inr cu \<Rightarrow> (Inr (Render name form), st))"

text \<open>Lines 104-111.\<close>

definition admin_only :: "(state \<Rightarrow> response \<times> state) \<Rightarrow> state \<Rightarrow> response \<times> state" where
  "admin_only f st =
     (case current_user st of
        Inl e \<Rightarrow> (Inl e, st)
      | Inr cu \<Rightarrow> if is_authenticated cu then f st else (Inl Forbidden, st))"

section \<open>Route handlers\<close>

text \<open>\<^verbatim>\<open>request.form[key]\<close>.\<close>

definition form_get :: "request \<Rightarrow> string \<Rightarrow> error + string" where
  "form_get req k = (case r_form req k of None \<Rightarrow> Inl BadRequest | Some v \<Rightarrow> Inr v)"

text \<open>\<^verbatim>\<open>form.validate_on_submit()\<close>: the request is a submission and the form validates.\<close>

definition validate_on_submit :: "request \<Rightarrow> wtform \<Rightarrow> bool" where
  "validate_on_submit req form = (r_method req = POST \<and> f_validate form)"

text \<open>Lines 123-140. The form of line 139 is built only when the POST branch is not taken.\<close>

definition register :: "env \<Rightarrow> wtform \<Rightarrow> request \<Rightarrow> state \<Rightarrow> response \<times> state" where
  "register ev form req st =
     (if r_method req = POST then
        (case form_get req ''email'' of
           Inl e \<Rightarrow> (Inl e, st)
         | Inr em \<Rightarrow>
             (case find (\<lambda>u. u_email u = em) (users st) of
                Some user \<Rightarrow>
                  (Inr (Redirect ''login'' None),
                   flash ''You've already signed up with that email, log in instead!'' st)
              | None \<Rightarrow>
                  (case form_get req ''name'' of
                     Inl e \<Rightarrow> (Inl e, st)
                   | Inr nm \<Rightarrow>
                       (case form_get req ''password'' of
                          Inl e \<Rightarrow> (Inl e, st)
                        | Inr pw \<Rightarrow>
                            (let (new_user, us) =
                                   add_user nm em (generate_password_hash ev pw) (users st)
                             in (Inr (Redirect ''get_all_posts'' None),
                                 login_user new_user (st\<lparr>users := us\<rparr>)))))))
      else render_template ''register.html'' (Some form) st)"

text \<open>Lines 144-160.\<close>

definition login :: "env \<Rightarrow> wtform \<Rightarrow> request \<Rightarrow> state \<Rightarrow> response \<times> state" where
  "login ev form req st =
     (if r_method req = POST then
        (case form_get req ''email'' of
           Inl e \<Rightarrow> (Inl e, st)
         | Inr em \<Rightarrow>
             (case find (\<lambda>u. u_email u = em) (users st) of
                Some user \<Rightarrow>
                  (case form_get req ''password'' of
                     Inl e \<Rightarrow> (Inl e, st)
                   | Inr pw \<Rightarrow>
                       if check_password_hash ev (u_password user) pw
                       then (Inr (Redirect ''get_all_posts'' None), login_user user st)
                       else (Inr (Redirect ''login'' None),
                             flash ''Wrong password! Please try again!'' st))
              | None \<Rightarrow>
                  (Inr (Redirect ''login'' None),
                   flash ''Email does not exist, please try again.'' st)))
      else render_template ''login.html'' (Some form) st)"

text \<open>Lines 191-210.\<close>

definition add_new_post :: "env \<Rightarrow> wtform \<Rightarrow> request \<Rightarrow> state \<Rightarrow> response \<times> state" where
  "add_new_post ev form req st =
     (case current_user st of
        Inl e \<Rightarrow> (Inl e, st)
      | Inr (LoggedIn u) \<Rightarrow>
          if validate_on_submit req form then
            (case add_post (u_id u) (f_data form ''title'') (f_data form ''subtitle'')
                    (today ev) (f_data form ''body'') (f_data form ''img_url'') (blog_posts st) of
               None \<Rightarrow> (Inl InternalServerError, st)
             | Some ps \<Rightarrow> (Inr (Redirect ''get_all_posts'' None), st\<lparr>blog_posts := ps\<rparr>))
          else render_template ''make-post.html'' (Some form) st
      | Inr AnonymousUser \<Rightarrow>
          (Inr (Redirect ''login'' None), flash ''You need to login or register to comment.'' st))"

text \<open>
  Lines 216-233, the function that \<^verbatim>\<open>admin_only\<close> wraps. Assigning the anonymous user
  to \<^verbatim>\<open>post.author\<close> is refused by the mapper; the gate keeps that branch from
  running.
\<close>

definition edit_post_body :: "int \<Rightarrow> wtform \<Rightarrow> request \<Rightarrow> state \<Rightarrow> response \<times> state" where
  "edit_post_body post_id edit_form req st =
     (case get_or_404 p_id (blog_posts st) post_id of
        Inl e \<Rightarrow> (Inl e, st)
      | Inr post \<Rightarrow>
          if validate_on_submit req edit_form then
            (case current_user st of
               Inl e \<Rightarrow> (Inl e, st)
             | Inr AnonymousUser \<Rightarrow> (Inl InternalServerError, st)
             | Inr (LoggedIn u) \<Rightarrow>
                 (case update_post (p_id post) (u_id u) (f_data edit_form ''title'')
                         (f_data edit_form ''subtitle'') (f_data edit_form ''body'')
                         (f_data edit_form ''img_url'') (blog_posts st) of
                    None \<Rightarrow> (Inl InternalServerError, st)
                  | Some ps \<Rightarrow>
                      (Inr (Redirect ''show_post'' (Some (p_id post))), st\<lparr>blog_posts := ps\<rparr>)))
          else render_template ''make-post.html'' (Some edit_form) st)"

text \<open>Lines 214-216: the route as registered, behind the gate.\<close>

definition edit_post :: "int \<Rightarrow> wtform \<Rightarrow> request \<Rightarrow> state \<Rightarrow> response \<times> state" where
  "edit_post post_id edit_form req = admin_only (edit_post_body post_id edit_form req)"

text \<open>Lines 239-243, the function that \<^verbatim>\<open>admin_only\<close> wraps.\<close>

definition delete_post_body :: "int \<Rightarrow> state \<Rightarrow> response \<times> state" where
  "delete_post_body post_id st =
     (case get_or_404 p_id (blog_posts st) post_id of
        Inl e \<Rightarrow> (Inl e, st)
      | Inr post_to_delete \<Rightarrow>
          (case delete_row (p_id post_to_delete) (blog_posts st) (comments st) of
             None \<Rightarrow> (Inl InternalServerError, st)
           | Some ps \<Rightarrow> (Inr (Redirect ''get_all_posts'' None), st\<lparr>blog_posts := ps\<rparr>)))"

text \<open>Lines 237-239: the route as registered, behind the gate.\<close>

definition delete_post :: "int \<Rightarrow> state \<Rightarrow> response \<times> state" where
  "delete_post post_id = admin_only (delete_post_body post_id)"

text \<open>
  The relay is asked each step once, in order; a step it refuses raises, and nothing
  after it runs.
\<close>

fun smtp_run :: "env \<Rightarrow> smtp_action list \<Rightarrow> state \<Rightarrow> bool \<times> state" where
  "smtp_run ev [] st = (True, st)"
| "smtp_run ev (a # as) st =
     (let st' = st\<lparr>smtp_log := smtp_log st @ [a]\<rparr>
      in if relay_accepts ev a then smtp_run ev as st' else (False, st'))"

text \<open>The message of lines 261-264.\<close>

definition contact_msg :: "string \<Rightarrow> string \<Rightarrow> string \<Rightarrow> string" where
  "contact_msg nm phone message =
     ''Subject:New Message \<newline>\<newline>'' @ ''Name: '' @ nm @ ''\<newline>'' @
     ''Phone no.: '' @ phone @ ''\<newline>'' @ ''Message: '' @ message"

text \<open>
  \<^verbatim>\<open>sendmail\<close> is given the message as a \<^verbatim>\<open>str\<close> and encodes it as ASCII before
  it asks anything of the relay; a character outside ASCII raises. A string is here the
  list of its UTF-8 bytes, so such a character shows as a byte of 128 or more.
\<close>

definition ascii_only :: "string \<Rightarrow> bool" where
  "ascii_only s = list_all (\<lambda>c. of_char c < (128::nat)) s"

text \<open>
  Lines 253-266. The three form fields are read when the arguments of
  \<^verbatim>\<open>sendmail\<close> are evaluated, after the login at the relay. The redirect of line 265
  is built and dropped; the page is rendered.
\<close>

definition contact :: "env \<Rightarrow> request \<Rightarrow> state \<Rightarrow> response \<times> state" where
  "contact ev req st =
     (if r_method req = POST then
        (case smtp_run ev [Connect ''smtp.gmail.com'' 587, Starttls,
                           Smtp_login (my_email ev) (my_pass ev)] st of
           (False, st1) \<Rightarrow> (Inl InternalServerError, st1)
         | (True, st1) \<Rightarrow>
             (case form_get req ''name'' of
                Inl e \<Rightarrow> (Inl e, st1)
              | Inr nm \<Rightarrow>
                  (case form_get req ''phone'' of
                     Inl e \<Rightarrow> (Inl e, st1)
                   | Inr phone \<Rightarrow>
                       (case form_get req ''message'' of
                          Inl e \<Rightarrow> (Inl e, st1)
                        | Inr message \<Rightarrow>
                            if ascii_only (contact_msg nm phone message) then
                              (case smtp_run ev [Sendmail (my_email ev) (my_email ev)
                                                   (contact_msg nm phone message)] st1 of
                                 (False, st2) \<Rightarrow> (Inl InternalServerError, st2)
                               | (True, st2) \<Rightarrow> render_template ''contact.html'' None st2)
                            else (Inl InternalServerError, st1)))))
      else render_template ''contact.html'' None st)"

text \<open>The steps a submission asks of the relay (lines 256-264), in order.\<close>

definition contact_steps :: "env \<Rightarrow> string \<Rightarrow> string \<Rightarrow> string \<Rightarrow> smtp_action list" where
  "contact_steps ev nm phone message =
     [Connect ''smtp.gmail.com'' 587, Starttls, Smtp_login (my_email ev) (my_pass ev),
      Sendmail (my_email ev) (my_email ev) (contact_msg nm phone message)]"

text \<open>The HTTP status a response carries.\<close>

fun http_status :: "response \<Rightarrow> nat" where
  "http_status (Inl e) = status_code e"
| "http_status (Inr (Redirect endpoint arg)) = 302"
| "http_status (Inr (Render name form)) = 200"

section \<open>A small site, for concrete runs\<close>

text \<open>
  Two users, two posts by the first, one comment by the second on the first post. The
  password function of this environment writes \<open>h:\<close> before the password.
\<close>

definition alice :: user where
  "alice = \<lparr>u_id = 1, u_email = ''a@x.com'', u_password = ''h:pw1'', u_name = ''A''\<rparr>"

definition bob :: user where
  "bob = \<lparr>u_id = 2, u_email = ''b@x.com'', u_password = ''h:pw2'', u_name = ''B''\<rparr>"

definition post1 :: blog_post where
  "post1 = \<lparr>p_id = 1, p_author_id = 1, p_title = ''T1'', p_subtitle = ''S1'',
             p_date = ''April 03, 2025'', p_body = ''B1'', p_img_url = ''http://x/img.png''\<rparr>"

definition post2 :: blog_post where
  "post2 = \<lparr>p_id = 2, p_author_id = 1, p_title = ''Hello World'', p_subtitle = ''S2'',
             p_date = ''April 04, 2025'', p_body = ''B2'', p_img_url = ''http://x/two.png''\<rparr>"

definition comment1 :: comment where
  "comment1 = \<lparr>c_id = 1, c_author_id = 2, c_post_id = 1, c_text = ''Nice!''\<rparr>"

definition site :: "int option \<Rightarrow> state" where
  "site sess = \<lparr>users = [alice, bob], blog_posts = [post1, post2], comments = [comment1],
                 session_user_id = sess, flashes = [], smtp_log = []\<rparr>"

definition demo_env :: "(smtp_action \<Rightarrow> bool) \<Rightarrow> env" where
  "demo_env relay = \<lparr>my_email = ''op@x.com'', my_pass = ''token'', today = ''April 05, 2025'',
                       generate_password_hash = (\<lambda>pw. ''h:'' @ pw),
                       check_password_hash = (\<lambda>h pw. h = ''h:'' @ pw),
                       relay_accepts = relay\<rparr>"

definition relay_up :: "smtp_action \<Rightarrow> bool" where
  "relay_up a = True"

text \<open>A relay that rejects the operator's credentials.\<close>

fun relay_rejects_login :: "smtp_action \<Rightarrow> bool" where
  "relay_rejects_login (Smtp_login u p) = False"
| "relay_rejects_login a = True"

definition post_form :: "bool \<Rightarrow> string \<Rightarrow> wtform" where
  "post_form ok ttl =
     \<lparr>f_validate = ok,
      f_data = (\<lambda>k. if k = ''title'' then ttl else if k = ''subtitle'' then ''Sub''
                     else if k = ''body'' then ''Body'' else if k = ''img_url'' then ''http://x/new.png''
                     else [])\<rparr>"

definition submit :: "(string \<times> string) list \<Rightarrow> request" where
  "submit kvs = \<lparr>r_method = POST, r_form = map_of kvs\<rparr>"

section \<open>Lookups in the store\<close>

lemma session_get_cases:
  "(session_get pk rows ident = None \<and> (\<forall>r\<in>set rows. pk r \<noteq> ident))
   \<or> (\<exists>r. session_get pk rows ident = Some r \<and> r \<in> set rows \<and> pk r = ident)"
  by (induction rows) (auto simp: session_get_def)

lemma get_or_404_missing:
  "int64 ident \<Longrightarrow> \<forall>r\<in>set rows. pk r \<noteq> ident \<Longrightarrow> get_or_404 pk rows ident = Inl NotFound"
  using session_get_cases [of pk rows ident] by (auto simp: get_or_404_def)

lemma get_or_404_found:
  "get_or_404 pk rows ident = Inr r \<Longrightarrow>
     r \<in> set rows \<and> pk r = ident \<and> int64 ident \<and> session_get pk rows ident = Some r"
  using session_get_cases [of pk rows ident]
  by (auto simp: get_or_404_def split: if_splits)

lemma get_or_404_stored:
  "int64 ident \<Longrightarrow> r \<in> set rows \<Longrightarrow> pk r = ident \<Longrightarrow> \<exists>r'. get_or_404 pk rows ident = Inr r'"
  using session_get_cases [of pk rows ident] by (auto simp: get_or_404_def)

lemma find_no_match: "\<forall>x\<in>set xs. \<not> P x \<Longrightarrow> find P xs = None"
  by (induction xs) auto

lemma find_append_new:
  "\<forall>x\<in>set xs. \<not> P x \<Longrightarrow> P y \<Longrightarrow> find P (xs @ [y]) = Some y"
  by (induction xs) auto

lemma find_unique:
  "distinct (map f xs) \<Longrightarrow> x \<in> set xs \<Longrightarrow> find (\<lambda>y. f y = f x) xs = Some x"
  by (induction xs) (auto simp: image_iff)

lemma filter_unique:
  "distinct (map f xs) \<Longrightarrow> x \<in> set xs \<Longrightarrow> filter (\<lambda>y. f y = f x) xs = [x]"
proof (induction xs)
  case Nil
  then show ?case by simp
next
  case (Cons a xs)
  have none: "filter (\<lambda>y. f y = f a) xs = []" using Cons.prems(1)
    by (auto simp: filter_empty_conv image_iff)
  show ?case
  proof (cases "x = a")
    case True
    then show ?thesis using none by simp
  next
    case False
    with Cons.prems have "x \<in> set xs" "f a \<noteq> f x" by (auto simp: image_iff)
    with Cons show ?thesis by simp
  qed
qed

text \<open>A new primary key is not among the stored ones.\<close>

lemma fold_max_ge: "(a::int) \<le> fold max xs a"
  by (induction xs arbitrary: a) (auto intro: order_trans [OF max.cobounded2])

lemma fold_max_mem: "(x::int) \<in> set xs \<Longrightarrow> x \<le> fold max xs a"
proof (induction xs arbitrary: a)
  case Nil
  then show ?case by simp
next
  case (Cons y ys)
  show ?case
  proof (cases "x = y")
    case True
    have "y \<le> max y a" by simp
    also have "\<dots> \<le> fold max ys (max y a)" by (rule fold_max_ge)
    finally show ?thesis using True by simp
  next
    case False
    with Cons show ?thesis by simp
  qed
qed

lemma fresh_id_new: "fresh_id ids \<notin> set ids"
proof
  assume "fresh_id ids \<in> set ids"
  then have "fresh_id ids \<le> fold max ids 0" by (rule fold_max_mem)
  then show False by (simp add: fresh_id_def)
qed

section \<open>The current user\<close>

lemma current_user_anonymous:
  "session_user_id st = None \<Longrightarrow> current_user st = Inr AnonymousUser"
  by (simp add: current_user_def)

lemma current_user_stale:
  "session_user_id st = Some uid \<Longrightarrow> \<forall>u\<in>set (users st). u_id u \<noteq> uid \<Longrightarrow>
     current_user st = Inl NotFound"
  using session_get_cases [of u_id "users st" uid]
  by (auto simp: current_user_def load_user_def get_or_404_text_def)

lemma current_user_error: "current_user st = Inl e \<Longrightarrow> e = NotFound"
  by (auto simp: current_user_def load_user_def get_or_404_text_def
        split: option.splits sum.splits)

lemma current_user_after_add:
  assumes "u_id new = fresh_id (map u_id us)"
  shows "current_user (st\<lparr>users := us @ [new], session_user_id := Some (u_id new)\<rparr>)
           = Inr (LoggedIn new)"
proof -
  have "\<forall>x\<in>set us. u_id x \<noteq> u_id new"
    using fresh_id_new [of "map u_id us"] assms by force
  then have "find (\<lambda>r. u_id r = u_id new) (us @ [new]) = Some new"
    by (simp add: find_append_new)
  then show ?thesis
    by (simp add: current_user_def load_user_def get_or_404_text_def session_get_def)
qed

lemma current_user_stored:
  assumes "distinct (map u_id (users st))" "u \<in> set (users st)"
  shows "current_user (st\<lparr>session_user_id := Some (u_id u)\<rparr>) = Inr (LoggedIn u)"
  using find_unique [OF assms]
  by (simp add: current_user_def load_user_def get_or_404_text_def session_get_def)

lemma site_current_user:
  "current_user (site None) = Inr AnonymousUser"
  "current_user (site (Some 1)) = Inr (LoggedIn alice)"
  "current_user (site (Some 2)) = Inr (LoggedIn bob)"
  "current_user (site (Some 9)) = Inl NotFound"
  by (simp_all add: site_def current_user_def load_user_def get_or_404_text_def
        session_get_def alice_def bob_def)

lemma site_posts:
  "get_or_404 p_id (blog_posts (site s)) 1 = Inr post1"
  "get_or_404 p_id (blog_posts (site s)) 2 = Inr post2"
  "get_or_404 p_id (blog_posts (site s)) 7 = Inl NotFound"
  by (simp_all add: site_def get_or_404_def session_get_def int64_def post1_def post2_def)

section \<open>The access gate\<close>

text \<open>
  A caller whose session holds the id of no stored user is not logged in, yet both gated
  routes answer 404, not 403: the loader's abort comes before the gate's own.
\<close>

theorem admin_only_stale_session_counterexample:
  "session_user_id (site (Some 9)) = Some 9
   \<and> current_user (site (Some 9)) = Inl NotFound
   \<and> http_status (fst (delete_post 2 (site (Some 9)))) = 404
   \<and> http_status (fst (edit_post 2 (post_form True ''T9'') (submit []) (site (Some 9)))) = 404"
  by (simp add: site_current_user delete_post_def edit_post_def admin_only_def)
     (simp add: site_def)

text \<open>
  Claim C5, amended. A request to a gated route (\<open>edit_post\<close>, \<open>delete_post\<close>) that carries
  no session ends with HTTP 403; one whose session holds the id of no stored user ends
  with HTTP 404. This holds whatever the wrapped function \<open>f\<close> is, so its body does not
  run; and for every caller that is not a logged-in user the state is returned as it
  was, so the post a gated delete names stays stored. When the session resolves to a
  stored user, the gate returns what the wrapped function returns.
\<close>

theorem admin_only_gate:
  "(session_user_id st = None \<longrightarrow>
      admin_only f st = (Inl Forbidden, st)
      \<and> edit_post pid form req st = (Inl Forbidden, st)
      \<and> delete_post pid st = (Inl Forbidden, st)
      \<and> http_status (fst (delete_post pid st)) = 403)
   \<and> (\<forall>uid. session_user_id st = Some uid \<longrightarrow> (\<forall>u\<in>set (users st). u_id u \<noteq> uid) \<longrightarrow>
      admin_only f st = (Inl NotFound, st)
      \<and> edit_post pid form req st = (Inl NotFound, st)
      \<and> delete_post pid st = (Inl NotFound, st)
      \<and> http_status (fst (delete_post pid st)) = 404)
   \<and> ((\<forall>u. current_user st \<noteq> Inr (LoggedIn u)) \<longrightarrow>
      snd (admin_only f st) = st
      \<and> (fst (admin_only f st) = Inl Forbidden \<or> fst (admin_only f st) = Inl NotFound)
      \<and> snd (edit_post pid form req st) = st
      \<and> snd (delete_post pid st) = st
      \<and> blog_posts (snd (delete_post pid st)) = blog_posts st)
   \<and> (current_user st = Inr (LoggedIn u) \<longrightarrow>
      admin_only f st = f st
      \<and> edit_post pid form req st = edit_post_body pid form req st
      \<and> delete_post pid st = delete_post_body pid st)"
proof (intro conjI impI allI)
  assume "session_user_id st = None"
  then have a: "current_user st = Inr AnonymousUser" by (rule current_user_anonymous)
  then show "admin_only f st = (Inl Forbidden, st)"
    "edit_post pid form req st = (Inl Forbidden, st)"
    "delete_post pid st = (Inl Forbidden, st)"
    "http_status (fst (delete_post pid st)) = 403"
    by (simp_all add: admin_only_def edit_post_def delete_post_def)
next
  fix uid assume "session_user_id st = Some uid" "\<forall>u\<in>set (users st). u_id u \<noteq> uid"
  then have a: "current_user st = Inl NotFound" by (rule current_user_stale)
  then show "admin_only f st = (Inl NotFound, st)"
    "edit_post pid form req st = (Inl NotFound, st)"
    "delete_post pid st = (Inl NotFound, st)"
    "http_status (fst (delete_post pid st)) = 404"
    by (simp_all add: admin_only_def edit_post_def delete_post_def)
next
  assume n: "\<forall>u. current_user st \<noteq> Inr (LoggedIn u)"
  have g: "snd (admin_only h st) = st
      \<and> (fst (admin_only h st) = Inl Forbidden \<or> fst (admin_only h st) = Inl NotFound)" for h
  proof (cases "current_user st")
    case (Inl e)
    then show ?thesis using current_user_error [OF Inl] by (simp add: admin_only_def)
  next
    case (Inr cu)
    with n show ?thesis by (cases cu) (simp_all add: admin_only_def)
  qed
  from g show "snd (admin_only f st) = st"
    "fst (admin_only f st) = Inl Forbidden \<or> fst (admin_only f st) = Inl NotFound"
    by simp_all
  from g show "snd (edit_post pid form req st) = st" "snd (delete_post pid st) = st"
    by (simp_all add: edit_post_def delete_post_def)
  then show "blog_posts (snd (delete_post pid st)) = blog_posts st" by simp
next
  assume "current_user st = Inr (LoggedIn u)"
  then show "admin_only f st = f st"
    "edit_post pid form req st = edit_post_body pid form req st"
    "delete_post pid st = delete_post_body pid st"
    by (simp_all add: admin_only_def edit_post_def delete_post_def)
qed

theorem admin_only_gate_witness:
  "delete_post 2 (site None) = (Inl Forbidden, site None)
   \<and> delete_post 2 (site (Some 9)) = (Inl NotFound, site (Some 9))
   \<and> blog_posts (snd (delete_post 2 (site None))) = [post1, post2]
   \<and> blog_posts (snd (delete_post 2 (site (Some 9)))) = [post1, post2]
   \<and> delete_post 2 (site (Some 2)) = delete_post_body 2 (site (Some 2))
   \<and> blog_posts (snd (delete_post 2 (site (Some 2)))) = [post1]"
proof -
  let ?F = "post_form True ''T9''" and ?R = "submit []"
  have a: "session_user_id (site None) = None" by (simp add: site_def)
  have b: "session_user_id (site (Some 9)) = Some 9"
    "\<forall>u\<in>set (users (site (Some 9))). u_id u \<noteq> 9"
    by (simp_all add: site_def alice_def bob_def)
  have p: "blog_posts (site s) = [post1, post2]" for s by (simp add: site_def)
  have c: "blog_posts (snd (delete_post_body 2 (site (Some 2)))) = [post1]"
    by (simp add: delete_post_body_def site_posts)
       (simp add: site_def delete_row_def post1_def post2_def comment1_def)
  note g = admin_only_gate [of _ "delete_post_body 2" 2 ?F ?R bob]
  from g [of "site None"] a have A: "delete_post 2 (site None) = (Inl Forbidden, site None)"
    by blast
  from g [of "site (Some 9)"] b
  have B: "delete_post 2 (site (Some 9)) = (Inl NotFound, site (Some 9))"
    by blast
  from g [of "site (Some 2)"] site_current_user(3)
  have C: "delete_post 2 (site (Some 2)) = delete_post_body 2 (site (Some 2))"
    by blast
  show ?thesis unfolding A B C by (simp add: p c)
qed

text \<open>
  The edit route for an id that no stored post has, asked without a session: the gate
  answers 403 before the lookup that would answer 404.
\<close>

theorem edit_post_missing_counterexample:
  "get_or_404 p_id (blog_posts (site None)) 7 = Inl NotFound
   \<and> http_status (fst (edit_post 7 (post_form True ''T9'') (submit []) (site None))) = 403"
  by (simp add: site_posts site_current_user edit_post_def admin_only_def)

text \<open>
  Claim C2, amended. For a \<open>pid\<close> that no stored post has, the edit route answers 403 to
  a request with no session, 404 to a request whose session holds the id of no stored
  user, and 404 to a logged-in requester when \<open>pid\<close> is an integer the store can bind.
\<close>

theorem edit_post_missing:
  assumes "\<forall>p\<in>set (blog_posts st). p_id p \<noteq> pid"
  shows "(session_user_id st = None \<longrightarrow>
            edit_post pid form req st = (Inl Forbidden, st)
            \<and> http_status (fst (edit_post pid form req st)) = 403)
       \<and> (\<forall>uid. session_user_id st = Some uid \<longrightarrow> (\<forall>u\<in>set (users st). u_id u \<noteq> uid) \<longrightarrow>
            edit_post pid form req st = (Inl NotFound, st)
            \<and> http_status (fst (edit_post pid form req st)) = 404)
       \<and> (current_user st = Inr (LoggedIn u) \<longrightarrow> int64 pid \<longrightarrow>
            edit_post pid form req st = (Inl NotFound, st)
            \<and> http_status (fst (edit_post pid form req st)) = 404)"
proof (intro conjI impI allI)
  assume "session_user_id st = None"
  then have "current_user st = Inr AnonymousUser" by (rule current_user_anonymous)
  then show "edit_post pid form req st = (Inl Forbidden, st)"
    "http_status (fst (edit_post pid form req st)) = 403"
    by (simp_all add: edit_post_def admin_only_def)
next
  fix uid assume "session_user_id st = Some uid" "\<forall>u\<in>set (users st). u_id u \<noteq> uid"
  then have "current_user st = Inl NotFound" by (rule current_user_stale)
  then show "edit_post pid form req st = (Inl NotFound, st)"
    "http_status (fst (edit_post pid form req st)) = 404"
    by (simp_all add: edit_post_def admin_only_def)
next
  assume cu: "current_user st = Inr (LoggedIn u)" and "int64 pid"
  with assms have "get_or_404 p_id (blog_posts st) pid = Inl NotFound"
    by (simp add: get_or_404_missing)
  with cu show "edit_post pid form req st = (Inl NotFound, st)"
    "http_status (fst (edit_post pid form req st)) = 404"
    by (simp_all add: edit_post_def admin_only_def edit_post_body_def)
qed

theorem edit_post_missing_witness:
  "http_status (fst (edit_post 7 (post_form True ''T9'') (submit []) (site None))) = 403
   \<and> http_status (fst (edit_post 7 (post_form True ''T9'') (submit []) (site (Some 9)))) = 404
   \<and> http_status (fst (edit_post 7 (post_form True ''T9'') (submit []) (site (Some 1)))) = 404"
proof -
  let ?F = "post_form True ''T9''" and ?R = "submit []"
  have a: "\<forall>p\<in>set (blog_posts (site s)). p_id p \<noteq> 7" for s
    by (simp add: site_def post1_def post2_def)
  have b: "session_user_id (site None) = None" "session_user_id (site (Some 9)) = Some 9"
    "\<forall>u\<in>set (users (site (Some 9))). u_id u \<noteq> 9" "int64 7"
    by (simp_all add: site_def alice_def bob_def int64_def)
  note g = edit_post_missing [OF a, of _ ?F ?R alice]
  from g [of None] b(1)
  have A: "http_status (fst (edit_post 7 ?F ?R (site None))) = 403" by blast
  from g [of "Some 9"] b(2,3)
  have B: "http_status (fst (edit_post 7 ?F ?R (site (Some 9)))) = 404" by blast
  from g [of "Some 1"] b(4) site_current_user(2)
  have C: "http_status (fst (edit_post 7 ?F ?R (site (Some 1)))) = 404" by blast
  from A B C show ?thesis by simp
qed

section \<open>Resolving the session\<close>

text \<open>
  A session that holds the id of no stored user: the loader aborts with 404, and a route
  that redirects an anonymous visitor to the login page ends with 404 instead.
\<close>

theorem current_user_stale_counterexample:
  "session_user_id (site (Some 9)) = Some 9
   \<and> current_user (site (Some 9)) = Inl NotFound
   \<and> http_status (fst (add_new_post (demo_env relay_up) (post_form True ''T9'') (submit []) (site (Some 9)))) = 404
   \<and> fst (add_new_post (demo_env relay_up) (post_form True ''T9'') (submit []) (site None)) = Inr (Redirect ''login'' None)"
  by (simp add: site_current_user add_new_post_def) (simp add: site_def)

text \<open>
  Claim C3, amended. A session that holds a user id resolves to the stored user with that
  id, or, when no stored user has it, the loader's abort ends the request with 404; it is
  not turned into the anonymous user.
\<close>

theorem current_user_resolution:
  assumes "session_user_id st = Some uid"
  shows "(\<exists>u. u \<in> set (users st) \<and> u_id u = uid \<and> load_user st uid = Inr u
              \<and> current_user st = Inr (LoggedIn u))
         \<or> ((\<forall>u\<in>set (users st). u_id u \<noteq> uid) \<and> load_user st uid = Inl NotFound
              \<and> current_user st = Inl NotFound)"
  using assms session_get_cases [of u_id "users st" uid]
  by (auto simp: current_user_def load_user_def get_or_404_text_def)

theorem current_user_resolution_witness:
  "current_user (site (Some 2)) = Inr (LoggedIn bob) \<and> current_user (site (Some 9)) = Inl NotFound
   \<and> current_user (site (Some 9)) \<noteq> Inr AnonymousUser"
proof -
  have a: "session_user_id (site (Some k)) = Some k" for k by (simp add: site_def)
  from current_user_resolution [OF a, of 2] current_user_resolution [OF a, of 9]
  show ?thesis
    by (auto simp: site_def alice_def bob_def)
qed

section \<open>Deleting a post\<close>

text \<open>
  Claim C1, at a concrete input. Post 1 is stored and has a comment. Bob is logged in and
  asks for its deletion. The commit raises: the response is HTTP 500, and both the post
  and the comment that points at it are still stored.
\<close>

theorem delete_post_commented:
  "current_user (site (Some 2)) = Inr (LoggedIn bob)
   \<and> get_or_404 p_id (blog_posts (site (Some 2))) 1 = Inr post1
   \<and> c_post_id comment1 = 1
   \<and> delete_post 1 (site (Some 2)) = (Inl InternalServerError, site (Some 2))
   \<and> http_status (fst (delete_post 1 (site (Some 2)))) = 500
   \<and> blog_posts (snd (delete_post 1 (site (Some 2)))) = [post1, post2]
   \<and> comments (snd (delete_post 1 (site (Some 2)))) = [comment1]"
  by (simp add: site_current_user site_posts delete_post_def admin_only_def
        delete_post_body_def)
     (simp add: site_def delete_row_def post1_def post2_def comment1_def)

section \<open>Creating a post\<close>

text \<open>
  Claim C4, at a concrete input. Alice is logged in and submits a valid form whose title
  is the title of the stored post 2. The commit raises; the response is HTTP 500, no
  message is flashed and nothing is redirected; the state is as before.
\<close>

theorem add_new_post_duplicate_title:
  "current_user (site (Some 1)) = Inr (LoggedIn alice)
   \<and> validate_on_submit (submit []) (post_form True ''Hello World'')
   \<and> p_title post2 = f_data (post_form True ''Hello World'') ''title''
   \<and> add_new_post (demo_env relay_up) (post_form True ''Hello World'') (submit []) (site (Some 1))
       = (Inl InternalServerError, site (Some 1))
   \<and> http_status (Inl InternalServerError) = 500"
  by (simp add: site_current_user add_new_post_def validate_on_submit_def submit_def
        post_form_def post2_def)
     (simp add: site_def add_post_def post1_def post2_def)

section \<open>Registering and logging in\<close>

lemma register_known_email:
  assumes "r_method req = POST" "r_form req ''email'' = Some em"
      and "distinct (map u_email (users st))" "u \<in> set (users st)" "u_email u = em"
  shows "register ev form req st =
           (Inr (Redirect ''login'' None),
            st\<lparr>flashes := flashes st @
                 [''You've already signed up with that email, log in instead!'']\<rparr>)"
proof -
  from assms(3-5) have "find (\<lambda>y. u_email y = em) (users st) = Some u"
    using find_unique [of u_email "users st" u] by simp
  with assms(1,2) show ?thesis by (simp add: register_def form_get_def flash_def)
qed

lemma register_new_email:
  assumes "r_method req = POST" "r_form req ''email'' = Some em"
      and "r_form req ''name'' = Some nm" "r_form req ''password'' = Some pw"
      and "\<forall>u\<in>set (users st). u_email u \<noteq> em"
  shows "register ev form req st =
           (Inr (Redirect ''get_all_posts'' None),
            st\<lparr>users := users st @ [\<lparr>u_id = fresh_id (map u_id (users st)), u_email = em,
                                      u_password = generate_password_hash ev pw, u_name = nm\<rparr>],
               session_user_id := Some (fresh_id (map u_id (users st)))\<rparr>)"
proof -
  from assms(5) have "find (\<lambda>y. u_email y = em) (users st) = None"
    by (simp add: find_no_match)
  with assms(1-4) show ?thesis
    by (simp add: register_def form_get_def add_user_def login_user_def Let_def)
qed

text \<open>
  Claim C6. A registration request carries email, name and password; stored emails are
  distinct (the unique column). If a stored user has the email, the response redirects
  to the login page, the flashed messages gain the handler's message and nothing else
  changes: the users table still holds exactly one user with that email, and the session
  is untouched. If none has it, the table gains one user whose password field is what
  \<open>generate_password_hash\<close> made of the password, nothing is flashed, the session holds
  the new id and resolves to that user, and the redirect goes to the listing.
\<close>

theorem register_post:
  assumes "r_method req = POST" and "r_form req ''email'' = Some em"
      and "r_form req ''name'' = Some nm" and "r_form req ''password'' = Some pw"
      and "distinct (map u_email (users st))"
  shows "((\<exists>u\<in>set (users st). u_email u = em) \<longrightarrow>
            register ev form req st =
              (Inr (Redirect ''login'' None),
               st\<lparr>flashes := flashes st @
                    [''You've already signed up with that email, log in instead!'']\<rparr>)
            \<and> flashes (snd (register ev form req st)) =
                flashes st @ [''You've already signed up with that email, log in instead!'']
            \<and> users (snd (register ev form req st)) = users st
            \<and> length (filter (\<lambda>u. u_email u = em) (users (snd (register ev form req st)))) = 1
            \<and> session_user_id (snd (register ev form req st)) = session_user_id st)
       \<and> ((\<forall>u\<in>set (users st). u_email u \<noteq> em) \<longrightarrow>
            fst (register ev form req st) = Inr (Redirect ''get_all_posts'' None)
            \<and> users (snd (register ev form req st)) =
                users st @ [\<lparr>u_id = fresh_id (map u_id (users st)), u_email = em,
                              u_password = generate_password_hash ev pw, u_name = nm\<rparr>]
            \<and> flashes (snd (register ev form req st)) = flashes st
            \<and> session_user_id (snd (register ev form req st)) =
                Some (fresh_id (map u_id (users st)))
            \<and> current_user (snd (register ev form req st)) =
                Inr (LoggedIn \<lparr>u_id = fresh_id (map u_id (users st)), u_email = em,
                                u_password = generate_password_hash ev pw, u_name = nm\<rparr>))"
proof (intro conjI impI)
  assume "\<exists>u\<in>set (users st). u_email u = em"
  then obtain u where u: "u \<in> set (users st)" "u_email u = em" by blast
  with assms show r: "register ev form req st =
      (Inr (Redirect ''login'' None),
       st\<lparr>flashes := flashes st @
            [''You've already signed up with that email, log in instead!'']\<rparr>)"
    by (simp add: register_known_email)
  show "flashes (snd (register ev form req st)) =
      flashes st @ [''You've already signed up with that email, log in instead!'']"
    by (simp add: r)
  show "users (snd (register ev form req st)) = users st" by (simp add: r)
  from filter_unique [OF assms(5) u(1)] u(2)
  show "length (filter (\<lambda>u. u_email u = em) (users (snd (register ev form req st)))) = 1"
    by (simp add: r)
  show "session_user_id (snd (register ev form req st)) = session_user_id st"
    by (simp add: r)
next
  assume new: "\<forall>u\<in>set (users st). u_email u \<noteq> em"
  note r = register_new_email [OF assms(1-4) new, of ev form]
  show "fst (register ev form req st) = Inr (Redirect ''get_all_posts'' None)"
    by (simp add: r)
  show "users (snd (register ev form req st)) =
          users st @ [\<lparr>u_id = fresh_id (map u_id (users st)), u_email = em,
                        u_password = generate_password_hash ev pw, u_name = nm\<rparr>]"
    by (simp add: r)
  show "flashes (snd (register ev form req st)) = flashes st" by (simp add: r)
  show "session_user_id (snd (register ev form req st)) = Some (fresh_id (map u_id (users st)))"
    by (simp add: r)
  show "current_user (snd (register ev form req st)) =
          Inr (LoggedIn \<lparr>u_id = fresh_id (map u_id (users st)), u_email = em,
                          u_password = generate_password_hash ev pw, u_name = nm\<rparr>)"
    using current_user_after_add
      [of "\<lparr>u_id = fresh_id (map u_id (users st)), u_email = em,
             u_password = generate_password_hash ev pw, u_name = nm\<rparr>" "users st" st]
    by (simp add: r)
qed

theorem register_post_witness:
  "fst (register (demo_env relay_up) (post_form False [])
      (submit [(''email'', ''a@x.com''), (''name'', ''A2''), (''password'', ''pw9'')]) (site None))
     = Inr (Redirect ''login'' None)
   \<and> flashes (snd (register (demo_env relay_up) (post_form False [])
        (submit [(''email'', ''a@x.com''), (''name'', ''A2''), (''password'', ''pw9'')]) (site None)))
       = [''You've already signed up with that email, log in instead!'']
   \<and> users (snd (register (demo_env relay_up) (post_form False [])
        (submit [(''email'', ''a@x.com''), (''name'', ''A2''), (''password'', ''pw9'')]) (site None)))
       = [alice, bob]
   \<and> users (snd (register (demo_env relay_up) (post_form False [])
        (submit [(''email'', ''c@x.com''), (''name'', ''C''), (''password'', ''pw3'')]) (site None)))
       = [alice, bob, \<lparr>u_id = 3, u_email = ''c@x.com'', u_password = ''h:pw3'', u_name = ''C''\<rparr>]
   \<and> flashes (snd (register (demo_env relay_up) (post_form False [])
        (submit [(''email'', ''c@x.com''), (''name'', ''C''), (''password'', ''pw3'')]) (site None)))
       = []
   \<and> current_user (snd (register (demo_env relay_up) (post_form False [])
        (submit [(''email'', ''c@x.com''), (''name'', ''C''), (''password'', ''pw3'')]) (site None)))
       = Inr (LoggedIn \<lparr>u_id = 3, u_email = ''c@x.com'', u_password = ''h:pw3'', u_name = ''C''\<rparr>)"
proof -
  let ?dup = "submit [(''email'', ''a@x.com''), (''name'', ''A2''), (''password'', ''pw9'')]"
  let ?new = "submit [(''email'', ''c@x.com''), (''name'', ''C''), (''password'', ''pw3'')]"
  let ?E = "demo_env relay_up" and ?F = "post_form False []"
  have d: "distinct (map u_email (users (site None)))"
    by (simp add: site_def alice_def bob_def)
  have known: "\<exists>u\<in>set (users (site None)). u_email u = ''a@x.com''"
    by (simp add: site_def alice_def)
  have new: "\<forall>u\<in>set (users (site None)). u_email u \<noteq> ''c@x.com''"
    by (simp add: site_def alice_def bob_def)
  have "r_method ?dup = POST" "r_form ?dup ''email'' = Some ''a@x.com''"
    "r_form ?dup ''name'' = Some ''A2''" "r_form ?dup ''password'' = Some ''pw9''"
    by (simp_all add: submit_def)
  from register_post [OF this d, of ?E ?F] known
  have A: "register ?E ?F ?dup (site None) =
      (Inr (Redirect ''login'' None),
       (site None)\<lparr>flashes := flashes (site None) @
            [''You've already signed up with that email, log in instead!'']\<rparr>)"
    by blast
  have "r_method ?new = POST" "r_form ?new ''email'' = Some ''c@x.com''"
    "r_form ?new ''name'' = Some ''C''" "r_form ?new ''password'' = Some ''pw3''"
    by (simp_all add: submit_def)
  from register_post [OF this d, of ?E ?F] new
  have B: "users (snd (register ?E ?F ?new (site None))) =
        users (site None) @ [\<lparr>u_id = fresh_id (map u_id (users (site None))), u_email = ''c@x.com'',
                      u_password = generate_password_hash ?E ''pw3'', u_name = ''C''\<rparr>]"
    and C: "current_user (snd (register ?E ?F ?new (site None))) =
        Inr (LoggedIn \<lparr>u_id = fresh_id (map u_id (users (site None))), u_email = ''c@x.com'',
                        u_password = generate_password_hash ?E ''pw3'', u_name = ''C''\<rparr>)"
    and D: "flashes (snd (register ?E ?F ?new (site None))) = flashes (site None)"
    by blast+
  have i: "fresh_id [u_id alice, u_id bob] = 3"
    by (simp add: alice_def bob_def fresh_id_def)
  have u: "users (site None) = [alice, bob]" "flashes (site None) = []"
    by (simp_all add: site_def)
  have g: "generate_password_hash ?E ''pw3'' = ''h:pw3''"
    by (simp add: demo_env_def)
  show ?thesis
    unfolding A B C D by (simp add: u i g)
qed

lemma login_found:
  assumes "r_method req = POST" "r_form req ''email'' = Some em" "r_form req ''password'' = Some pw"
      and "distinct (map u_email (users st))" "u \<in> set (users st)" "u_email u = em"
  shows "login ev form req st =
           (if check_password_hash ev (u_password u) pw
            then (Inr (Redirect ''get_all_posts'' None), st\<lparr>session_user_id := Some (u_id u)\<rparr>)
            else (Inr (Redirect ''login'' None),
                  st\<lparr>flashes := flashes st @ [''Wrong password! Please try again!'']\<rparr>))"
proof -
  from assms(4-6) have "find (\<lambda>y. u_email y = em) (users st) = Some u"
    using find_unique [of u_email "users st" u] by simp
  with assms(1-3) show ?thesis
    by (simp add: login_def form_get_def login_user_def flash_def)
qed

text \<open>
  Claim C7. A login request carries email and password; stored emails and ids are
  distinct. With no stored user of that email: the flashed messages gain the "does not
  exist" message and the response redirects to the login page. With a stored user whose
  hash does not verify the password: the flashed messages gain the "wrong password"
  message, the response redirects to the login page, and the session is as it was. When
  it verifies: nothing is flashed, the session holds that user's id and resolves to the
  user, and the redirect goes to the listing.
\<close>

theorem login_post:
  assumes "r_method req = POST" and "r_form req ''email'' = Some em"
      and "r_form req ''password'' = Some pw"
      and "distinct (map u_email (users st))" and "distinct (map u_id (users st))"
  shows "((\<forall>u\<in>set (users st). u_email u \<noteq> em) \<longrightarrow>
            login ev form req st =
              (Inr (Redirect ''login'' None),
               st\<lparr>flashes := flashes st @ [''Email does not exist, please try again.'']\<rparr>)
            \<and> flashes (snd (login ev form req st)) =
                flashes st @ [''Email does not exist, please try again.'']
            \<and> session_user_id (snd (login ev form req st)) = session_user_id st)
       \<and> (\<forall>u\<in>set (users st). u_email u = em \<longrightarrow>
            (\<not> check_password_hash ev (u_password u) pw \<longrightarrow>
               login ev form req st =
                 (Inr (Redirect ''login'' None),
                  st\<lparr>flashes := flashes st @ [''Wrong password! Please try again!'']\<rparr>)
               \<and> flashes (snd (login ev form req st)) =
                   flashes st @ [''Wrong password! Please try again!'']
               \<and> session_user_id (snd (login ev form req st)) = session_user_id st)
            \<and> (check_password_hash ev (u_password u) pw \<longrightarrow>
               login ev form req st =
                 (Inr (Redirect ''get_all_posts'' None), st\<lparr>session_user_id := Some (u_id u)\<rparr>)
               \<and> flashes (snd (login ev form req st)) = flashes st
               \<and> current_user (snd (login ev form req st)) = Inr (LoggedIn u)))"
proof (intro conjI impI ballI)
  assume "\<forall>u\<in>set (users st). u_email u \<noteq> em"
  then have "find (\<lambda>y. u_email y = em) (users st) = None" by (simp add: find_no_match)
  with assms(1,2) show r: "login ev form req st =
      (Inr (Redirect ''login'' None),
       st\<lparr>flashes := flashes st @ [''Email does not exist, please try again.'']\<rparr>)"
    by (simp add: login_def form_get_def flash_def)
  show "flashes (snd (login ev form req st)) =
      flashes st @ [''Email does not exist, please try again.'']"
    and "session_user_id (snd (login ev form req st)) = session_user_id st"
    by (simp_all add: r)
next
  fix u assume u: "u \<in> set (users st)" "u_email u = em"
  note r = login_found [OF assms(1-4) u, of ev form]
  {
    assume "\<not> check_password_hash ev (u_password u) pw"
    then show "login ev form req st =
        (Inr (Redirect ''login'' None),
         st\<lparr>flashes := flashes st @ [''Wrong password! Please try again!'']\<rparr>)"
      and "flashes (snd (login ev form req st)) =
        flashes st @ [''Wrong password! Please try again!'']"
      and "session_user_id (snd (login ev form req st)) = session_user_id st"
      by (simp_all add: r)
  }
  {
    assume "check_password_hash ev (u_password u) pw"
    then show "login ev form req st =
        (Inr (Redirect ''get_all_posts'' None), st\<lparr>session_user_id := Some (u_id u)\<rparr>)"
      and "flashes (snd (login ev form req st)) = flashes st"
      and "current_user (snd (login ev form req st)) = Inr (LoggedIn u)"
      by (simp_all add: r current_user_stored [OF assms(5) u(1)])
  }
qed

theorem login_post_witness:
  "fst (login (demo_env relay_up) (post_form False [])
      (submit [(''email'', ''z@x.com''), (''password'', ''pw1'')]) (site None))
     = Inr (Redirect ''login'' None)
   \<and> flashes (snd (login (demo_env relay_up) (post_form False [])
      (submit [(''email'', ''z@x.com''), (''password'', ''pw1'')]) (site None)))
     = [''Email does not exist, please try again.'']
   \<and> fst (login (demo_env relay_up) (post_form False [])
      (submit [(''email'', ''a@x.com''), (''password'', ''bad'')]) (site None))
     = Inr (Redirect ''login'' None)
   \<and> flashes (snd (login (demo_env relay_up) (post_form False [])
      (submit [(''email'', ''a@x.com''), (''password'', ''bad'')]) (site None)))
     = [''Wrong password! Please try again!'']
   \<and> session_user_id (snd (login (demo_env relay_up) (post_form False [])
      (submit [(''email'', ''a@x.com''), (''password'', ''bad'')]) (site None))) = None
   \<and> login (demo_env relay_up) (post_form False [])
      (submit [(''email'', ''a@x.com''), (''password'', ''pw1'')]) (site None)
     = (Inr (Redirect ''get_all_posts'' None), site (Some 1))
   \<and> current_user (snd (login (demo_env relay_up) (post_form False [])
      (submit [(''email'', ''a@x.com''), (''password'', ''pw1'')]) (site None))) = Inr (LoggedIn alice)"
proof -
  let ?none = "submit [(''email'', ''z@x.com''), (''password'', ''pw1'')]"
  let ?bad = "submit [(''email'', ''a@x.com''), (''password'', ''bad'')]"
  let ?good = "submit [(''email'', ''a@x.com''), (''password'', ''pw1'')]"
  let ?E = "demo_env relay_up" and ?F = "post_form False []"
  have d: "distinct (map u_email (users (site None)))" "distinct (map u_id (users (site None)))"
    by (simp_all add: site_def alice_def bob_def)
  have a: "alice \<in> set (users (site None))" "u_email alice = ''a@x.com''"
    by (simp_all add: site_def alice_def)
  have z: "\<forall>u\<in>set (users (site None)). u_email u \<noteq> ''z@x.com''"
    by (simp add: site_def alice_def bob_def)
  have c: "\<not> check_password_hash ?E (u_password alice) ''bad''"
    "check_password_hash ?E (u_password alice) ''pw1''"
    by (simp_all add: demo_env_def alice_def)
  have "r_method ?none = POST" "r_form ?none ''email'' = Some ''z@x.com''"
    "r_form ?none ''password'' = Some ''pw1''"
    by (simp_all add: submit_def)
  from login_post [OF this d, of ?E ?F] z
  have A: "login ?E ?F ?none (site None) =
      (Inr (Redirect ''login'' None),
       (site None)\<lparr>flashes := flashes (site None) @
          [''Email does not exist, please try again.'']\<rparr>)"
    by blast
  have "r_method ?bad = POST" "r_form ?bad ''email'' = Some ''a@x.com''"
    "r_form ?bad ''password'' = Some ''bad''"
    by (simp_all add: submit_def)
  from login_post [OF this d, of ?E ?F] a c(1)
  have B: "login ?E ?F ?bad (site None) =
      (Inr (Redirect ''login'' None),
       (site None)\<lparr>flashes := flashes (site None) @ [''Wrong password! Please try again!'']\<rparr>)"
    by blast
  have "r_method ?good = POST" "r_form ?good ''email'' = Some ''a@x.com''"
    "r_form ?good ''password'' = Some ''pw1''"
    by (simp_all add: submit_def)
  from login_post [OF this d, of ?E ?F] a c(2)
  have C: "login ?E ?F ?good (site None) =
      (Inr (Redirect ''get_all_posts'' None), (site None)\<lparr>session_user_id := Some (u_id alice)\<rparr>)"
    and C': "current_user (snd (login ?E ?F ?good (site None))) = Inr (LoggedIn alice)"
    by blast+
  have s: "(site None)\<lparr>session_user_id := Some (u_id alice)\<rparr> = site (Some 1)"
    "session_user_id (site None) = None" "flashes (site None) = []"
    by (simp_all add: site_def alice_def)
  from C' show ?thesis unfolding A B C by (simp add: s)
qed

section \<open>Editing a post\<close>

text \<open>
  Bob is logged in and submits a valid edit of post 2 whose title is the title of post 1.
  The commit raises: the response is a server error and post 2 is not overwritten.
\<close>

theorem edit_post_taken_title_counterexample:
  "current_user (site (Some 2)) = Inr (LoggedIn bob)
   \<and> get_or_404 p_id (blog_posts (site (Some 2))) 2 = Inr post2
   \<and> validate_on_submit (submit []) (post_form True ''T1'')
   \<and> edit_post 2 (post_form True ''T1'') (submit []) (site (Some 2))
        = (Inl InternalServerError, site (Some 2))
   \<and> p_title post2 \<noteq> f_data (post_form True ''T1'') ''title''"
  by (simp add: site_current_user site_posts edit_post_def admin_only_def
        edit_post_body_def validate_on_submit_def submit_def)
     (simp add: site_def update_post_def post1_def post2_def post_form_def)

lemma find_map_update:
  assumes "\<And>x. P (g x) = P x"
  shows "find P (map (\<lambda>x. if P x then g x else x) xs) = map_option g (find P xs)"
  using assms by (induction xs) auto

lemma filter_map_update:
  assumes "\<And>x. P (g x) = P x"
  shows "filter (\<lambda>x. \<not> P x) (map (\<lambda>x. if P x then g x else x) xs) = filter (\<lambda>x. \<not> P x) xs"
  using assms by (induction xs) auto

lemma edit_post_body_valid:
  assumes "current_user st = Inr (LoggedIn u)"
      and "get_or_404 p_id (blog_posts st) pid = Inr p"
      and "validate_on_submit req form"
      and "\<forall>q\<in>set (blog_posts st). p_id q \<noteq> pid \<longrightarrow> p_title q \<noteq> f_data form ''title''"
  shows "edit_post_body pid form req st =
           (Inr (Redirect ''show_post'' (Some pid)),
            st\<lparr>blog_posts :=
                 map (\<lambda>q. if p_id q = pid
                           then q\<lparr>p_title := f_data form ''title'',
                                  p_subtitle := f_data form ''subtitle'',
                                  p_img_url := f_data form ''img_url'',
                                  p_author_id := u_id u,
                                  p_body := f_data form ''body''\<rparr>
                           else q) (blog_posts st)\<rparr>)"
proof -
  from assms(2) have p: "p_id p = pid" by (simp add: get_or_404_found)
  from assms(4) have
    "\<not> list_ex (\<lambda>q. p_id q \<noteq> pid \<and> p_title q = f_data form ''title'') (blog_posts st)"
    by (auto simp: list_ex_iff)
  with assms(1-3) p show ?thesis
    by (simp add: edit_post_body_def update_post_def)
qed

text \<open>
  Claim C8, amended. A logged-in user \<open>u\<close> submits a valid edit form for the stored post
  \<open>p\<close> with id \<open>pid\<close>, and no other stored post holds the submitted title. Then the
  response redirects to the detail page of \<open>pid\<close>; the stored post with that id has the
  submitted title, subtitle, body and image address and \<open>u\<close> as its author (whoever
  the author was before), and keeps its id and its date; every other post, the users, the
  comments and the session are as before.
\<close>

theorem edit_post_valid:
  assumes "current_user st = Inr (LoggedIn u)"
      and "get_or_404 p_id (blog_posts st) pid = Inr p"
      and "validate_on_submit req form"
      and "\<forall>q\<in>set (blog_posts st). p_id q \<noteq> pid \<longrightarrow> p_title q \<noteq> f_data form ''title''"
  shows "fst (edit_post pid form req st) = Inr (Redirect ''show_post'' (Some pid))
       \<and> get_or_404 p_id (blog_posts (snd (edit_post pid form req st))) pid =
           Inr \<lparr>p_id = p_id p, p_author_id = u_id u, p_title = f_data form ''title'',
                p_subtitle = f_data form ''subtitle'', p_date = p_date p,
                p_body = f_data form ''body'', p_img_url = f_data form ''img_url''\<rparr>
       \<and> map p_id (blog_posts (snd (edit_post pid form req st))) = map p_id (blog_posts st)
       \<and> filter (\<lambda>q. p_id q \<noteq> pid) (blog_posts (snd (edit_post pid form req st))) =
           filter (\<lambda>q. p_id q \<noteq> pid) (blog_posts st)
       \<and> users (snd (edit_post pid form req st)) = users st
       \<and> comments (snd (edit_post pid form req st)) = comments st
       \<and> session_user_id (snd (edit_post pid form req st)) = session_user_id st"
proof -
  let ?g = "\<lambda>q. q\<lparr>p_title := f_data form ''title'', p_subtitle := f_data form ''subtitle'',
                    p_img_url := f_data form ''img_url'', p_author_id := u_id u,
                    p_body := f_data form ''body''\<rparr>"
  let ?ps = "map (\<lambda>q. if p_id q = pid then ?g q else q) (blog_posts st)"
  have e: "edit_post pid form req st =
      (Inr (Redirect ''show_post'' (Some pid)), st\<lparr>blog_posts := ?ps\<rparr>)"
    using assms by (simp add: edit_post_def admin_only_def edit_post_body_valid)
  from assms(2) have f: "find (\<lambda>q. p_id q = pid) (blog_posts st) = Some p" and r: "int64 pid"
    using get_or_404_found [of p_id "blog_posts st" pid p] by (simp_all add: session_get_def)
  have "find (\<lambda>q. p_id q = pid) ?ps = map_option ?g (find (\<lambda>q. p_id q = pid) (blog_posts st))"
    by (rule find_map_update) simp
  with f r have g: "get_or_404 p_id ?ps pid = Inr (?g p)"
    by (simp add: get_or_404_def session_get_def)
  have h: "?g p = \<lparr>p_id = p_id p, p_author_id = u_id u, p_title = f_data form ''title'',
                p_subtitle = f_data form ''subtitle'', p_date = p_date p,
                p_body = f_data form ''body'', p_img_url = f_data form ''img_url''\<rparr>"
    by (cases p) simp
  have i: "map p_id ?ps = map p_id (blog_posts st)"
    by (induction "blog_posts st") (simp_all add: comp_def)
  have j: "filter (\<lambda>q. p_id q \<noteq> pid) ?ps = filter (\<lambda>q. p_id q \<noteq> pid) (blog_posts st)"
    by (rule filter_map_update) simp
  show ?thesis
    unfolding e using g h i j by simp
qed

theorem edit_post_valid_witness:
  "p_author_id post1 = 1 \<and> u_id bob = 2
   \<and> fst (edit_post 1 (post_form True ''T9'') (submit []) (site (Some 2)))
       = Inr (Redirect ''show_post'' (Some 1))
   \<and> get_or_404 p_id
        (blog_posts (snd (edit_post 1 (post_form True ''T9'') (submit []) (site (Some 2))))) 1
       = Inr \<lparr>p_id = 1, p_author_id = 2, p_title = ''T9'', p_subtitle = ''Sub'',
              p_date = ''April 03, 2025'', p_body = ''Body'', p_img_url = ''http://x/new.png''\<rparr>
   \<and> get_or_404 p_id
        (blog_posts (snd (edit_post 1 (post_form True ''T9'') (submit []) (site (Some 2))))) 2
       = Inr post2"
proof -
  let ?F = "post_form True ''T9''" and ?S = "site (Some 2)"
  have b: "validate_on_submit (submit []) ?F"
    by (simp add: validate_on_submit_def submit_def post_form_def)
  have c: "\<forall>q\<in>set (blog_posts ?S). p_id q \<noteq> 1 \<longrightarrow> p_title q \<noteq> f_data ?F ''title''"
    by (simp add: site_def post1_def post2_def post_form_def)
  note r = edit_post_valid [OF site_current_user(3) site_posts(1) b c]
  have d: "f_data ?F ''title'' = ''T9''" "f_data ?F ''subtitle'' = ''Sub''"
    "f_data ?F ''body'' = ''Body''" "f_data ?F ''img_url'' = ''http://x/new.png''"
    by (simp_all add: post_form_def)
  have e: "p_id post1 = 1" "p_date post1 = ''April 03, 2025''" "p_author_id post1 = 1"
    "u_id bob = 2" "p_id post2 = 2"
    by (simp_all add: post1_def post2_def bob_def)
  have f: "filter (\<lambda>q. p_id q \<noteq> 1) (blog_posts ?S) = [post2]"
    by (simp add: site_def post1_def post2_def)
  have "map p_id (blog_posts (snd (edit_post 1 ?F (submit []) ?S))) = [1, 2]"
    using r by (simp add: site_def e)
  moreover have "filter (\<lambda>q. p_id q \<noteq> 1) (blog_posts (snd (edit_post 1 ?F (submit []) ?S))) = [post2]"
    using r f by simp
  ultimately have "get_or_404 p_id (blog_posts (snd (edit_post 1 ?F (submit []) ?S))) 2 = Inr post2"
    by (cases "blog_posts (snd (edit_post 1 ?F (submit []) ?S))")
       (auto simp: get_or_404_def session_get_def int64_def e split: if_splits)
  with r show ?thesis by (simp add: d e)
qed

section \<open>The contact form\<close>

text \<open>
  Claim C9, at a concrete input. The submitted name holds a character outside ASCII (the
  two UTF-8 bytes of an accented e) and the relay accepts every step. The message is not
  handed to the relay: the log ends with the login, and the response is HTTP 500.
\<close>

theorem contact_non_ascii_name:
  "r_form (submit [(''name'', [CHR ''J'', CHR ''o'', CHR ''s'', CHR 0xC3, CHR 0xA9]),
                   (''phone'', ''1''), (''message'', ''hi'')]) ''name''
     = Some [CHR ''J'', CHR ''o'', CHR ''s'', CHR 0xC3, CHR 0xA9]
   \<and> list_all (relay_accepts (demo_env relay_up))
        (contact_steps (demo_env relay_up) [CHR ''J'', CHR ''o'', CHR ''s'', CHR 0xC3, CHR 0xA9]
           ''1'' ''hi'')
   \<and> contact (demo_env relay_up)
        (submit [(''name'', [CHR ''J'', CHR ''o'', CHR ''s'', CHR 0xC3, CHR 0xA9]),
                 (''phone'', ''1''), (''message'', ''hi'')]) (site None)
     = (Inl InternalServerError,
        (site None)\<lparr>smtp_log :=
           [Connect ''smtp.gmail.com'' 587, Starttls, Smtp_login ''op@x.com'' ''token'']\<rparr>)
   \<and> http_status (Inl InternalServerError) = 500"
  by (simp add: contact_def submit_def form_get_def contact_steps_def demo_env_def
        relay_up_def contact_msg_def ascii_only_def)
     (simp add: site_def)

text \<open>
  For a submission whose message is ASCII: when the relay accepts every step, it is asked
  the four steps once each, in order, the one message goes from the operator's address
  to the operator's address, begins with the subject line and holds the three submitted
  fields, and the contact page is rendered (which resolves the session). When the relay
  refuses a step, the request ends with HTTP 500, nothing is flashed, and the log holds
  the accepted steps and then the first refused one.
\<close>

lemma contact_ascii_fields:
  assumes "r_method req = POST" and "r_form req ''name'' = Some nm"
      and "r_form req ''phone'' = Some phone" and "r_form req ''message'' = Some message"
      and "ascii_only (contact_msg nm phone message)"
  shows "((\<forall>a\<in>set (contact_steps ev nm phone message). relay_accepts ev a) \<longrightarrow>
            contact ev req st =
              render_template ''contact.html'' None
                (st\<lparr>smtp_log := smtp_log st @
                  [Connect ''smtp.gmail.com'' 587, Starttls, Smtp_login (my_email ev) (my_pass ev),
                   Sendmail (my_email ev) (my_email ev)
                     (''Subject:New Message \<newline>\<newline>Name: '' @ nm @ ''\<newline>Phone no.: '' @ phone @
                      ''\<newline>Message: '' @ message)]\<rparr>))
       \<and> ((\<exists>a\<in>set (contact_steps ev nm phone message). \<not> relay_accepts ev a) \<longrightarrow>
            contact ev req st =
              (Inl InternalServerError,
               st\<lparr>smtp_log := smtp_log st @
                  takeWhile (relay_accepts ev) (contact_steps ev nm phone message) @
                  take 1 (dropWhile (relay_accepts ev) (contact_steps ev nm phone message))\<rparr>)
            \<and> http_status (fst (contact ev req st)) = 500
            \<and> flashes (snd (contact ev req st)) = flashes st)"
  using assms by (simp add: contact_def form_get_def contact_steps_def) (simp add: contact_msg_def)

section \<open>Registration and form validation\<close>



end
